theory Spec2Isabelle
  imports Main "HOL-Library.Word" "HOL-Library.Multiset"
begin

section \<open>ProctorLink API: a shallow embedding of main.py\<close>

text \<open>
  The request handlers of \<^verbatim>\<open>main.py\<close> are translated one by one. The module global
  \<^verbatim>\<open>db\<close> is the state: \<open>None\<close> when no database is configured, otherwise a store with
  the two collections \<^verbatim>\<open>exam\<close> and \<^verbatim>\<open>examlog\<close>. A handler takes the state and returns
  its outcome together with the new state; an outcome is \<open>Inr\<close> of the response or
  \<open>Inl\<close> of the exception that ends the request.

  What the program reads from outside is an argument of the handler that reads it:
  the two digests (\<^verbatim>\<open>hashlib.sha256\<close>, \<^verbatim>\<open>hashlib.sha1\<close>), the bytes of
  \<^verbatim>\<open>os.urandom(16)\<close>, every reading of the clock, the identifier the driver gives a new
  document, the environment variable, whether \<^verbatim>\<open>openpyxl\<close> can be imported, and the two
  renderings of a time as ISO-8601 text.
\<close>

subsection \<open>Exceptions\<close>

text \<open>
  \<open>HTTPException status detail\<close> is the exception the handlers raise themselves;
  \<open>Unhandled name\<close> is a Python exception no handler catches (the framework answers
  500).
\<close>

datatype http_error = HTTPException nat string | Unhandled string

subsection \<open>Hexadecimal text\<close>

text \<open>
  \<^verbatim>\<open>hexdigest()\<close> of a digest and \<^verbatim>\<open>str()\<close> of an ObjectId both write a fixed number of
  bytes as lowercase hexadecimal digits, most significant first. A value of \<open>n\<close> bits is
  a word of that length.
\<close>

definition hexdigits :: string where
  "hexdigits = ''0123456789abcdef''"

definition hex_of_nat :: "nat \<Rightarrow> nat \<Rightarrow> string" where
  "hex_of_nat n x = map (\<lambda>k. hexdigits ! ((x div 16 ^ k) mod 16)) (rev [0..<n])"

definition hexdigest :: "'a::len word \<Rightarrow> string" where
  "hexdigest w = hex_of_nat (LENGTH('a) div 4) (unat w)"

text \<open>The value of one hexadecimal digit, either case, as \<^verbatim>\<open>bytes.fromhex\<close> reads it.\<close>

definition hexval :: "char \<Rightarrow> nat option" where
  "hexval c =
     (let n = (of_char c :: nat) in
      if 48 \<le> n \<and> n \<le> 57 then Some (n - 48)
      else if 97 \<le> n \<and> n \<le> 102 then Some (n - 87)
      else if 65 \<le> n \<and> n \<le> 70 then Some (n - 55)
      else None)"

fun nat_of_hex :: "nat \<Rightarrow> string \<Rightarrow> nat option" where
  "nat_of_hex acc [] = Some acc"
| "nat_of_hex acc (c # cs) =
     (case hexval c of None \<Rightarrow> None | Some d \<Rightarrow> nat_of_hex (16 * acc + d) cs)"

subsection \<open>ObjectId\<close>

text \<open>
  A BSON ObjectId is twelve bytes. \<^verbatim>\<open>ObjectId(s)\<close> accepts a string of 24 hexadecimal
  digits and raises on any other string; \<^verbatim>\<open>str\<close> of an ObjectId is its 24 lowercase
  digits.
\<close>

type_synonym object_id = "96 word"

definition ObjectId :: "string \<Rightarrow> object_id option" where
  "ObjectId s = (if length s = 24 then map_option of_nat (nat_of_hex 0 s) else None)"

definition str_of_id :: "object_id \<Rightarrow> string" where
  "str_of_id i = hexdigest i"

subsection \<open>Utility helpers\<close>

text \<open>
  \<^verbatim>\<open>
  def oid(obj_id: str) -> ObjectId:
      try:
          return ObjectId(obj_id)
      except Exception:
          raise HTTPException(status_code=400, detail="Invalid ID")

  def hash_password(pw: str) -> str:
      return hashlib.sha256(pw.encode()).hexdigest()

  def make_slug() -> str:
      return hashlib.sha1(os.urandom(16)).hexdigest()[:8]
  \<close>
  A \<open>string\<close> is the text already as bytes, so \<^verbatim>\<open>pw.encode()\<close> is the identity. The 16
  random bytes are a 128-bit word; SHA-1 gives 160 bits and SHA-256 gives 256 bits.
\<close>

definition oid :: "string \<Rightarrow> http_error + object_id" where
  "oid obj_id =
     (case ObjectId obj_id of
        Some i \<Rightarrow> Inr i
      | None \<Rightarrow> Inl (HTTPException 400 ''Invalid ID''))"

definition hash_password :: "(string \<Rightarrow> 256 word) \<Rightarrow> string \<Rightarrow> string" where
  "hash_password sha256 pw = hexdigest (sha256 pw)"

definition make_slug :: "(128 word \<Rightarrow> 160 word) \<Rightarrow> 128 word \<Rightarrow> string" where
  "make_slug sha1 urandom16 = take 8 (hexdigest (sha1 urandom16))"

text \<open>\<^verbatim>\<open>s.rstrip('/')\<close> removes every trailing occurrence of the character.\<close>

definition rstrip :: "char \<Rightarrow> string \<Rightarrow> string" where
  "rstrip c s = rev (dropWhile (\<lambda>x. x = c) (rev s))"

subsection \<open>Documents and request bodies\<close>

text \<open>
  The documents as \<^verbatim>\<open>create_exam\<close> and \<^verbatim>\<open>log_event\<close> build them. A time is a number of
  milliseconds since the epoch, the precision at which the store keeps a datetime. The
  collection \<^verbatim>\<open>exam\<close> pairs each document with the \<^verbatim>\<open>_id\<close> it was given; the \<^verbatim>\<open>_id\<close> of
  a log entry is never read and is left out.
\<close>

record Exam =
  url :: string
  password_hash :: string
  slug :: string
  created_at :: int
  updated_at :: int

record Examlog =
  exam_id :: object_id
  type :: string
  details :: string
  client_ts :: "int option"
  server_ts :: int
  ip :: "string option"
  ua :: "string option"

text \<open>
  The bodies \<^verbatim>\<open>ExamCreate\<close>, \<^verbatim>\<open>VerifyBody\<close> and \<^verbatim>\<open>LogBody\<close>, after validation; \<open>ec_url\<close>
  is \<^verbatim>\<open>str(body.url)\<close>, the only form in which the handler uses the URL.
\<close>

record ExamCreate =
  ec_url :: string
  ec_password :: string

record VerifyBody =
  vb_password :: string

record LogBody =
  lb_type :: string
  lb_details :: "string option"
  lb_ts :: "int option"

text \<open>
  What the handlers read of the request: \<^verbatim>\<open>str(request.base_url)\<close>,
  \<^verbatim>\<open>request.client.host if request.client else None\<close> and
  \<^verbatim>\<open>request.headers.get("user-agent")\<close>.
\<close>

record Request =
  base_url :: string
  client_host :: "string option"
  user_agent :: "string option"

subsection \<open>The store\<close>

text \<open>
  Both collections keep their documents in insertion order. \<open>calls\<close> is a ghost log of
  the operations issued to the store, oldest first: no handler reads it, and it lets a
  theorem say that a request made no query or no write.
\<close>

datatype db_call =
  FindOneExamById object_id
  | FindOneExamBySlug string
  | InsertOneExam
  | InsertOneExamlog
  | FindExamlogSorted object_id

record store =
  exam :: "(object_id \<times> Exam) list"
  examlog :: "Examlog list"
  calls :: "db_call list"

definition called :: "db_call \<Rightarrow> store \<Rightarrow> store" where
  "called c st = st\<lparr>calls := calls st @ [c]\<rparr>"

text \<open>\<^verbatim>\<open>db["exam"].find_one({"_id": i})\<close> and \<^verbatim>\<open>db["exam"].find_one({"slug": s})\<close>: the first
  matching document, or None.\<close>

definition find_one_exam_by_id ::
  "object_id \<Rightarrow> store \<Rightarrow> (object_id \<times> Exam) option \<times> store" where
  "find_one_exam_by_id i st =
     (find (\<lambda>d. fst d = i) (exam st), called (FindOneExamById i) st)"

definition find_one_exam_by_slug ::
  "string \<Rightarrow> store \<Rightarrow> (object_id \<times> Exam) option \<times> store" where
  "find_one_exam_by_slug s st =
     (find (\<lambda>d. slug (snd d) = s) (exam st), called (FindOneExamBySlug s) st)"

text \<open>
  \<^verbatim>\<open>db["exam"].insert_one(doc).inserted_id\<close>: the driver gives the document the
  identifier \<open>new_id\<close>; the store keeps \<^verbatim>\<open>_id\<close> unique and refuses a second document
  with the same one (DuplicateKeyError, here \<open>None\<close>).
\<close>

definition insert_one_exam ::
  "object_id \<Rightarrow> Exam \<Rightarrow> store \<Rightarrow> object_id option \<times> store" where
  "insert_one_exam new_id doc st =
     (if find (\<lambda>d. fst d = new_id) (exam st) \<noteq> None
      then (None, called InsertOneExam st)
      else (Some new_id, called InsertOneExam (st\<lparr>exam := exam st @ [(new_id, doc)]\<rparr>)))"

definition insert_one_examlog :: "Examlog \<Rightarrow> store \<Rightarrow> store" where
  "insert_one_examlog evt st =
     called InsertOneExamlog (st\<lparr>examlog := examlog st @ [evt]\<rparr>)"

text \<open>
  \<^verbatim>\<open>list(db["examlog"].find({"exam_id": i}).sort("server_ts", 1))\<close>: the entries of the
  exam, ascending by \<^verbatim>\<open>server_ts\<close>. Entries with equal \<^verbatim>\<open>server_ts\<close> are kept in insertion
  order here; the store promises no order among them, and no theorem below depends
  on it.
\<close>

definition find_examlog_sorted :: "object_id \<Rightarrow> store \<Rightarrow> Examlog list \<times> store" where
  "find_examlog_sorted i st =
     (sort_key server_ts (filter (\<lambda>l. exam_id l = i) (examlog st)),
      called (FindExamlogSorted i) st)"

subsection \<open>Responses\<close>

text \<open>The dictionaries the handlers return, one record each.\<close>

record Created =
  created_id :: string
  created_slug :: string
  short_url :: string
  created_embed_url :: string

record Resolved =
  resolved_id :: string
  resolved_slug :: string
  resolved_embed_url :: string

record Verified =
  ok :: bool
  message :: string

record Logged =
  logged_ok :: bool

text \<open>
  A worksheet is its rows, a row its cells. A cell holds a number, a text or nothing
  (Python's None). The answer to an export is the workbook with its one sheet and the
  two headers of the response.
\<close>

datatype cell = Number nat | Text string | Blank

record Exported =
  sheet_title :: string
  sheet_rows :: "cell list list"
  content_disposition :: string
  content_type :: string

subsection \<open>POST /exams\<close>

text \<open>
  What one call of \<^verbatim>\<open>create_exam\<close> reads from outside, in the order it reads it: the
  bytes of \<^verbatim>\<open>os.urandom(16)\<close>, the clock for \<^verbatim>\<open>created_at\<close>, the clock again for
  \<^verbatim>\<open>updated_at\<close>, the identifier the driver gives the document, and
  \<^verbatim>\<open>os.getenv("FRONTEND_BASE_URL")\<close>.
\<close>

record create_env =
  urandom16 :: "128 word"
  now_created :: int
  now_updated :: int
  new_object_id :: object_id
  FRONTEND_BASE_URL :: "string option"

definition create_exam ::
  "(string \<Rightarrow> 256 word) \<Rightarrow> (128 word \<Rightarrow> 160 word) \<Rightarrow> create_env \<Rightarrow>
   store option \<Rightarrow> ExamCreate \<Rightarrow> Request \<Rightarrow> (http_error + Created) \<times> store option" where
  "create_exam sha256 sha1 env db body request =
     (case db of
        None \<Rightarrow> (Inl (HTTPException 500 ''Database not configured''), None)
      | Some st \<Rightarrow>
          let slug' = make_slug sha1 (urandom16 env);
              password_hash' = hash_password sha256 (ec_password body);
              exam_doc = \<lparr>url = ec_url body,
                          password_hash = password_hash',
                          slug = slug',
                          created_at = now_created env,
                          updated_at = now_updated env\<rparr>
          in (case insert_one_exam (new_object_id env) exam_doc st of
                (None, st1) \<Rightarrow> (Inl (Unhandled ''DuplicateKeyError''), Some st1)
              | (Some inserted_id, st1) \<Rightarrow>
                  let path = ''/x/'' @ slug';
                      short_url' =
                        (case FRONTEND_BASE_URL env of
                           None \<Rightarrow> rstrip CHR ''/'' (base_url request) @ path
                         | Some frontend_base \<Rightarrow>
                             if frontend_base \<noteq> []
                             then rstrip CHR ''/'' frontend_base @ path
                             else rstrip CHR ''/'' (base_url request) @ path)
                  in (Inr \<lparr>created_id = str_of_id inserted_id,
                           created_slug = slug',
                           short_url = short_url',
                           created_embed_url = ec_url body\<rparr>,
                      Some st1)))"

subsection \<open>GET /exams/slug/{slug}\<close>

definition get_exam_by_slug ::
  "store option \<Rightarrow> string \<Rightarrow> (http_error + Resolved) \<times> store option" where
  "get_exam_by_slug db slug' =
     (case db of
        None \<Rightarrow> (Inl (HTTPException 500 ''Database not configured''), None)
      | Some st \<Rightarrow>
          (case find_one_exam_by_slug slug' st of
             (None, st1) \<Rightarrow> (Inl (HTTPException 404 ''Exam not found''), Some st1)
           | (Some doc, st1) \<Rightarrow>
               (Inr \<lparr>resolved_id = str_of_id (fst doc),
                     resolved_slug = slug',
                     resolved_embed_url = url (snd doc)\<rparr>,
                Some st1)))"

subsection \<open>POST /exams/{exam_id}/verify\<close>

text \<open>\<^verbatim>\<open>oid(exam_id)\<close> is evaluated before \<^verbatim>\<open>find_one\<close> is called with its result.\<close>

definition verify_exam_password ::
  "(string \<Rightarrow> 256 word) \<Rightarrow> store option \<Rightarrow> string \<Rightarrow> VerifyBody \<Rightarrow>
   (http_error + Verified) \<times> store option" where
  "verify_exam_password sha256 db id_str body =
     (case db of
        None \<Rightarrow> (Inl (HTTPException 500 ''Database not configured''), None)
      | Some st \<Rightarrow>
          (case oid id_str of
             Inl e \<Rightarrow> (Inl e, Some st)
           | Inr i \<Rightarrow>
               (case find_one_exam_by_id i st of
                  (None, st1) \<Rightarrow> (Inl (HTTPException 404 ''Exam not found''), Some st1)
                | (Some doc, st1) \<Rightarrow>
                    let ok' = (password_hash (snd doc) = hash_password sha256 (vb_password body))
                    in (Inr \<lparr>ok = ok',
                             message = (if ok' then ''OK'' else ''Invalid password'')\<rparr>,
                        Some st1))))"

subsection \<open>POST /exams/{exam_id}/log\<close>

text \<open>
  \<open>now\<close> is the reading of the clock for \<^verbatim>\<open>server_ts\<close>. \<^verbatim>\<open>body.details or ""\<close> is the
  empty string for None and for the empty string. \<^verbatim>\<open>oid(exam_id)\<close> is computed a second
  time for the entry.
\<close>

definition log_event ::
  "int \<Rightarrow> store option \<Rightarrow> string \<Rightarrow> LogBody \<Rightarrow> Request \<Rightarrow>
   (http_error + Logged) \<times> store option" where
  "log_event now db id_str body request =
     (case db of
        None \<Rightarrow> (Inl (HTTPException 500 ''Database not configured''), None)
      | Some st \<Rightarrow>
          (case oid id_str of
             Inl e \<Rightarrow> (Inl e, Some st)
           | Inr i \<Rightarrow>
               (case find_one_exam_by_id i st of
                  (None, st1) \<Rightarrow> (Inl (HTTPException 404 ''Exam not found''), Some st1)
                | (Some doc, st1) \<Rightarrow>
                    (case oid id_str of
                       Inl e \<Rightarrow> (Inl e, Some st1)
                     | Inr j \<Rightarrow>
                         let evt = \<lparr>exam_id = j,
                                    type = lb_type body,
                                    details = (case lb_details body of
                                                 None \<Rightarrow> []
                                               | Some d \<Rightarrow> d),
                                    client_ts = lb_ts body,
                                    server_ts = now,
                                    ip = client_host request,
                                    ua = user_agent request\<rparr>
                         in (Inr \<lparr>logged_ok = True\<rparr>,
                             Some (insert_one_examlog evt st1))))))"

subsection \<open>GET /exams/{exam_id}/export\<close>

definition header_row :: "cell list" where
  "header_row =
     [Text ''#'', Text ''Event'', Text ''Details'', Text ''Client Time'',
      Text ''Server Time'', Text ''IP'', Text ''User Agent'']"

text \<open>A value that may be None, as a cell.\<close>

definition opt_cell :: "string option \<Rightarrow> cell" where
  "opt_cell v = (case v of None \<Rightarrow> Blank | Some s \<Rightarrow> Text s)"

text \<open>
  \<^verbatim>\<open>
  client_time = (
      datetime.fromtimestamp(l.get("client_ts") / 1000.0).isoformat()
      if l.get("client_ts") else ""
  )
  \<close>
  The test is Python's truth of the value: None and 0 are both false.
  \<open>fromtimestamp_iso t\<close> is the ISO-8601 text of the local time \<open>t\<close> milliseconds after
  the epoch, and \<open>None\<close> where \<^verbatim>\<open>datetime.fromtimestamp\<close> raises (a time outside the
  years 1 to 9999, or outside what the platform converts).
\<close>

definition client_time :: "(int \<Rightarrow> string option) \<Rightarrow> Examlog \<Rightarrow> http_error + string" where
  "client_time fromtimestamp_iso l =
     (case client_ts l of
        None \<Rightarrow> Inr []
      | Some t \<Rightarrow>
          if t = 0 then Inr []
          else (case fromtimestamp_iso t of
                  None \<Rightarrow> Inl (Unhandled ''datetime.fromtimestamp'')
                | Some s \<Rightarrow> Inr s))"

text \<open>
  The loop \<^verbatim>\<open>for i, l in enumerate(logs, start=1)\<close>: \<open>ws\<close> is the worksheet so far and
  \<open>i\<close> the number of the next entry. \<open>utc_iso\<close> is
  \<^verbatim>\<open>.astimezone(timezone.utc).isoformat()\<close>; a stored \<^verbatim>\<open>server_ts\<close> is a datetime, which
  is always true, so the server time is always rendered.
\<close>

fun append_rows ::
  "(int \<Rightarrow> string option) \<Rightarrow> (int \<Rightarrow> string) \<Rightarrow> cell list list \<Rightarrow> nat \<Rightarrow>
   Examlog list \<Rightarrow> http_error + cell list list" where
  "append_rows fromtimestamp_iso utc_iso ws i [] = Inr ws"
| "append_rows fromtimestamp_iso utc_iso ws i (l # ls) =
     (case client_time fromtimestamp_iso l of
        Inl e \<Rightarrow> Inl e
      | Inr client_time' \<Rightarrow>
          append_rows fromtimestamp_iso utc_iso
            (ws @ [[Number i,
                    Text (type l),
                    Text (details l),
                    Text client_time',
                    Text (utc_iso (server_ts l)),
                    opt_cell (ip l),
                    opt_cell (ua l)]])
            (Suc i) ls)"

text \<open>
  \<open>openpyxl_installed\<close> says whether \<^verbatim>\<open>from openpyxl import Workbook\<close> succeeds. The
  bytes of the saved workbook are the encoder's business; the response is modelled by
  the sheet it was saved from.
\<close>

definition export_log ::
  "bool \<Rightarrow> (int \<Rightarrow> string option) \<Rightarrow> (int \<Rightarrow> string) \<Rightarrow> store option \<Rightarrow> string \<Rightarrow>
   (http_error + Exported) \<times> store option" where
  "export_log openpyxl_installed fromtimestamp_iso utc_iso db id_str =
     (case db of
        None \<Rightarrow> (Inl (HTTPException 500 ''Database not configured''), None)
      | Some st \<Rightarrow>
          (case oid id_str of
             Inl e \<Rightarrow> (Inl e, Some st)
           | Inr i \<Rightarrow>
               (case find_one_exam_by_id i st of
                  (None, st1) \<Rightarrow> (Inl (HTTPException 404 ''Exam not found''), Some st1)
                | (Some doc, st1) \<Rightarrow>
                    (case oid id_str of
                       Inl e \<Rightarrow> (Inl e, Some st1)
                     | Inr j \<Rightarrow>
                         (case find_examlog_sorted j st1 of
                            (logs, st2) \<Rightarrow>
                              if \<not> openpyxl_installed
                              then (Inl (HTTPException 500 ''openpyxl not installed on server''),
                                    Some st2)
                              else (case append_rows fromtimestamp_iso utc_iso
                                           [header_row] 1 logs of
                                      Inl e \<Rightarrow> (Inl e, Some st2)
                                    | Inr ws \<Rightarrow>
                                        (Inr \<lparr>sheet_title = ''Proctor Log'',
                                              sheet_rows = ws,
                                              content_disposition =
                                                ''attachment; filename=exam_'' @ id_str
                                                  @ ''_log.xlsx'',
                                              content_type =
                                                ''application/vnd.openxmlformats-officedocument.spreadsheetml.sheet''\<rparr>,
                                         Some st2)))))))"

subsection \<open>The application\<close>

text \<open>
  The five routes that read or write the two collections, as requests, and the state
  each leaves behind.
  \<open>app\<close> serves one request; \<open>fold (app \<dots>) reqs db\<close> serves a list of them in order.
\<close>

datatype request =
  CreateExam create_env ExamCreate Request
  | GetExamBySlug string
  | VerifyExamPassword string VerifyBody
  | LogEvent int string LogBody Request
  | ExportLog string

fun app ::
  "(string \<Rightarrow> 256 word) \<Rightarrow> (128 word \<Rightarrow> 160 word) \<Rightarrow> bool \<Rightarrow> (int \<Rightarrow> string option) \<Rightarrow>
   (int \<Rightarrow> string) \<Rightarrow> request \<Rightarrow> store option \<Rightarrow> store option" where
  "app sha256 sha1 openpyxl_installed fromtimestamp_iso utc_iso (CreateExam env body request) db =
     snd (create_exam sha256 sha1 env db body request)"
| "app sha256 sha1 openpyxl_installed fromtimestamp_iso utc_iso (GetExamBySlug slug') db =
     snd (get_exam_by_slug db slug')"
| "app sha256 sha1 openpyxl_installed fromtimestamp_iso utc_iso (VerifyExamPassword id_str body) db =
     snd (verify_exam_password sha256 db id_str body)"
| "app sha256 sha1 openpyxl_installed fromtimestamp_iso utc_iso (LogEvent now id_str body request) db =
     snd (log_event now db id_str body request)"
| "app sha256 sha1 openpyxl_installed fromtimestamp_iso utc_iso (ExportLog id_str) db =
     snd (export_log openpyxl_installed fromtimestamp_iso utc_iso db id_str)"

subsection \<open>Values for running the handlers\<close>

text \<open>
  Stand-ins for what comes from outside, used only where a handler is run on a concrete
  input: two functions of the right types in place of the digests, and a rendering of
  the client time that refuses what \<^verbatim>\<open>datetime.fromtimestamp\<close> refuses in every time
  zone, a time more than a day after the last second of the year 9999
  (253402300799 seconds after the epoch) or more than a day before the first second
  of the year 1. No theorem about the program depends on them.
\<close>

definition toy_sha256 :: "string \<Rightarrow> 256 word" where
  "toy_sha256 pw = word_of_nat (length pw + 31 * sum_list (map of_char pw))"

definition toy_sha1 :: "128 word \<Rightarrow> 160 word" where
  "toy_sha1 w = push_bit 32 (ucast w)"

definition toy_fromtimestamp_iso :: "int \<Rightarrow> string option" where
  "toy_fromtimestamp_iso t =
     (if - 62135683200000 \<le> t \<and> t < 253402387200000 then Some ''local time'' else None)"

definition toy_utc_iso :: "int \<Rightarrow> string" where
  "toy_utc_iso t = ''utc time''"

definition sample_request :: Request where
  "sample_request =
     \<lparr>base_url = ''http://testserver/'', client_host = Some ''127.0.0.1'',
      user_agent = Some ''pytest''\<rparr>"

definition sample_env :: create_env where
  "sample_env =
     \<lparr>urandom16 = 0x3f9a0c42d1e5b7a8091827364554affe,
      now_created = 1700000000000,
      now_updated = 1700000000000,
      new_object_id = 0x65f0a1b2c3d4e5f601234567,
      FRONTEND_BASE_URL = None\<rparr>"

definition sample_body :: ExamCreate where
  "sample_body = \<lparr>ec_url = ''https://forms.example.com/f1'', ec_password = ''secret123''\<rparr>"

definition empty_store :: store where
  "empty_store = \<lparr>exam = [], examlog = [], calls = []\<rparr>"

text \<open>The store after the sample exam was created in the empty store.\<close>

definition sample_store :: store where
  "sample_store =
     \<lparr>exam = [(0x65f0a1b2c3d4e5f601234567,
               \<lparr>url = ''https://forms.example.com/f1'',
                password_hash = hash_password toy_sha256 ''secret123'',
                slug = ''3f9a0c42'',
                created_at = 1700000000000,
                updated_at = 1700000000000\<rparr>)],
      examlog = [],
      calls = [InsertOneExam]\<rparr>"

text \<open>
  Three entries of the sample exam in the order they were inserted: one whose client
  time is 0, one without a client time, and one with a client time in 2023. Their server
  times are not in insertion order.
\<close>

definition sample_events :: "Examlog list" where
  "sample_events =
     [\<lparr>exam_id = 0x65f0a1b2c3d4e5f601234567, type = ''focus'', details = ''back'',
       client_ts = Some 0, server_ts = 1700000000600,
       ip = Some ''127.0.0.1'', ua = Some ''pytest''\<rparr>,
      \<lparr>exam_id = 0x65f0a1b2c3d4e5f601234567, type = ''blur'', details = [],
       client_ts = None, server_ts = 1700000000500,
       ip = Some ''127.0.0.1'', ua = None\<rparr>,
      \<lparr>exam_id = 0x65f0a1b2c3d4e5f601234567, type = ''fullscreen-exit'', details = [],
       client_ts = Some 1700000000400, server_ts = 1700000000700,
       ip = None, ua = Some ''pytest''\<rparr>]"

text \<open>
  A log request for the sample exam whose client time is a number of microseconds
  instead of milliseconds: as milliseconds it lies in the year 55840.
\<close>

definition late_body :: LogBody where
  "late_body = \<lparr>lb_type = ''blur'', lb_details = None, lb_ts = Some 1700000000000000\<rparr>"

section \<open>Lemmas about the helpers\<close>

subsection \<open>Hexadecimal text and ObjectId\<close>

lemma length_hex_of_nat: "length (hex_of_nat n x) = n"
  by (simp add: hex_of_nat_def)

lemma set_hex_of_nat: "set (hex_of_nat n x) \<subseteq> set hexdigits"
proof -
  have "hexdigits ! (m mod 16) \<in> set hexdigits" for m
    by (rule nth_mem) (simp add: hexdigits_def)
  then show ?thesis by (auto simp: hex_of_nat_def)
qed

lemma hexval_hexdigits: "d < 16 \<Longrightarrow> hexval (hexdigits ! d) = Some d"
proof -
  assume "d < 16"
  have all: "list_all (\<lambda>d. hexval (hexdigits ! d) = Some d) [0..<16]"
    by code_simp
  from \<open>d < 16\<close> have "d \<in> set [0..<16]" by simp
  with all show ?thesis unfolding list_all_iff by blast
qed

lemma nat_of_hex_hex_of_nat:
  "nat_of_hex acc (hex_of_nat n x) = Some (acc * 16 ^ n + x mod 16 ^ n)"
proof (induction n arbitrary: acc)
  case 0
  then show ?case by (simp add: hex_of_nat_def)
next
  case (Suc n)
  have step: "hex_of_nat (Suc n) x = hexdigits ! ((x div 16 ^ n) mod 16) # hex_of_nat n x"
    by (simp add: hex_of_nat_def)
  have "x mod (16 ^ n * 16) = 16 ^ n * (x div 16 ^ n mod 16) + x mod 16 ^ n"
    by (rule mod_mult2_eq)
  then have split: "x mod 16 ^ Suc n = 16 ^ n * (x div 16 ^ n mod 16) + x mod 16 ^ n"
    by (simp only: power_Suc2)
  have "nat_of_hex acc (hex_of_nat (Suc n) x)
        = nat_of_hex (16 * acc + (x div 16 ^ n) mod 16) (hex_of_nat n x)"
    by (simp only: step nat_of_hex.simps hexval_hexdigits [OF mod_less_divisor] option.case)
  also have "\<dots> = Some ((16 * acc + (x div 16 ^ n) mod 16) * 16 ^ n + x mod 16 ^ n)"
    by (rule Suc.IH)
  also have "\<dots> = Some (acc * 16 ^ Suc n + x mod 16 ^ Suc n)"
    unfolding split by (simp add: algebra_simps)
  finally show ?case .
qed


lemma ObjectId_str_of_id: "ObjectId (str_of_id i) = Some i"
proof -
  have "unat i < 2 ^ 96" using unsigned_less [of i] by simp
  then have "unat i mod 16 ^ 24 = unat i" by simp
  then show ?thesis
    by (simp add: ObjectId_def str_of_id_def hexdigest_def length_hex_of_nat nat_of_hex_hex_of_nat)
qed

lemma oid_str_of_id: "oid (str_of_id i) = Inr i"
  by (simp add: oid_def ObjectId_str_of_id)

lemma length_hexdigest: "length (hexdigest (w::'a::len word)) = LENGTH('a) div 4"
  by (simp add: hexdigest_def length_hex_of_nat)

lemma length_make_slug: "length (make_slug sha1 seed) = 8"
  by (simp add: make_slug_def length_hexdigest)

lemma set_make_slug: "set (make_slug sha1 seed) \<subseteq> set ''0123456789abcdef''"
proof -
  have "set (make_slug sha1 seed) \<subseteq> set (hexdigest (sha1 seed))"
    unfolding make_slug_def by (rule set_take_subset)
  also have "\<dots> \<subseteq> set hexdigits"
    unfolding hexdigest_def by (rule set_hex_of_nat)
  finally show ?thesis unfolding hexdigits_def .
qed

subsection \<open>The handlers and the store\<close>

lemma find_append:
  "find P (xs @ ys) = (case find P xs of None \<Rightarrow> find P ys | Some x \<Rightarrow> Some x)"
  by (induction xs) simp_all

lemma find_one_exam_by_id_fields [simp]:
  "exam (snd (find_one_exam_by_id i st)) = exam st"
  "examlog (snd (find_one_exam_by_id i st)) = examlog st"
  "fst (find_one_exam_by_id i st) = find (\<lambda>d. fst d = i) (exam st)"
  by (simp_all add: find_one_exam_by_id_def called_def)

lemma app_grows:
  "\<exists>st'. app sha256 sha1 ox f g req (Some st) = Some st'
     \<and> (\<exists>ys. exam st' = exam st @ ys) \<and> (\<exists>zs. examlog st' = examlog st @ zs)"
proof (cases req)
  case (CreateExam env body request)
  then show ?thesis
    by (simp add: create_exam_def insert_one_exam_def called_def Let_def)
next
  case (GetExamBySlug s)
  then show ?thesis
    by (simp add: get_exam_by_slug_def find_one_exam_by_slug_def called_def split: option.splits)
next
  case (VerifyExamPassword id_str body)
  then show ?thesis
    by (simp add: verify_exam_password_def find_one_exam_by_id_def called_def Let_def
        split: option.splits sum.splits)
next
  case (LogEvent now id_str body request)
  then show ?thesis
    by (simp add: log_event_def find_one_exam_by_id_def insert_one_examlog_def called_def Let_def
        split: option.splits sum.splits)
next
  case (ExportLog id_str)
  then show ?thesis
    by (simp add: export_log_def find_one_exam_by_id_def find_examlog_sorted_def called_def
        split: option.splits sum.splits)
qed

lemma app_keeps_found:
  assumes "find P (exam st) = Some x"
  shows "\<exists>st'. app sha256 sha1 ox f g req (Some st) = Some st' \<and> find P (exam st') = Some x"
proof -
  from app_grows [of sha256 sha1 ox f g req st]
  obtain st' ys where "app sha256 sha1 ox f g req (Some st) = Some st'" "exam st' = exam st @ ys"
    by blast
  with assms show ?thesis by (simp add: find_append)
qed

lemma fold_app_keeps_found:
  assumes "find P (exam st) = Some x"
  shows "\<exists>st'. fold (app sha256 sha1 ox f g) reqs (Some st) = Some st'
           \<and> find P (exam st') = Some x"
  using assms
proof (induction reqs arbitrary: st)
  case Nil
  then show ?case by simp
next
  case (Cons req reqs)
  from app_keeps_found [OF Cons.prems, of sha256 sha1 ox f g req]
  obtain st1 where "app sha256 sha1 ox f g req (Some st) = Some st1" "find P (exam st1) = Some x"
    by blast
  with Cons.IH [of st1] show ?case by simp
qed

lemma create_exam_Inr:
  assumes "create_exam sha256 sha1 env db body request = (Inr r, db')"
  shows "\<exists>st. db = Some st
           \<and> find (\<lambda>d. fst d = new_object_id env) (exam st) = None
           \<and> db' = Some (called InsertOneExam
                (st\<lparr>exam := exam st @
                   [(new_object_id env,
                     \<lparr>url = ec_url body,
                      password_hash = hash_password sha256 (ec_password body),
                      slug = make_slug sha1 (urandom16 env),
                      created_at = now_created env,
                      updated_at = now_updated env\<rparr>)]\<rparr>))
           \<and> created_id r = str_of_id (new_object_id env)
           \<and> created_slug r = make_slug sha1 (urandom16 env)
           \<and> created_embed_url r = ec_url body
           \<and> short_url r =
               rstrip CHR ''/''
                 (case FRONTEND_BASE_URL env of
                    None \<Rightarrow> base_url request
                  | Some frontend_base \<Rightarrow>
                      if frontend_base \<noteq> [] then frontend_base else base_url request)
               @ ''/x/'' @ make_slug sha1 (urandom16 env)"
proof -
  obtain st where db: "db = Some st"
    using assms by (cases db) (simp_all add: create_exam_def)
  have fresh: "find (\<lambda>d. fst d = new_object_id env) (exam st) = None"
  proof (rule ccontr)
    assume "find (\<lambda>d. fst d = new_object_id env) (exam st) \<noteq> None"
    with assms db show False
      by (simp add: create_exam_def insert_one_exam_def Let_def)
  qed
  from assms db fresh show ?thesis
    by (auto simp: create_exam_def insert_one_exam_def Let_def split: option.splits if_splits)
qed

subsection \<open>The sample run\<close>

lemma toy_slug: "make_slug toy_sha1 0x3f9a0c42d1e5b7a8091827364554affe = ''3f9a0c42''"
  by (simp add: toy_sha1_def make_slug_def hexdigest_def hex_of_nat_def hexdigits_def
      upt_rec [of _ "numeral _"] unsigned_push_bit_eq unsigned_ucast_eq take_bit_eq_mod
      push_bit_eq_mult)

lemma sample_id: "str_of_id 0x65f0a1b2c3d4e5f601234567 = ''65f0a1b2c3d4e5f601234567''"
  by (simp add: str_of_id_def hexdigest_def hex_of_nat_def hexdigits_def
      upt_rec [of _ "numeral _"])

lemma sample_create:
  "create_exam toy_sha256 toy_sha1 sample_env (Some empty_store) sample_body sample_request
   = (Inr \<lparr>created_id = ''65f0a1b2c3d4e5f601234567'',
            created_slug = ''3f9a0c42'',
            short_url = ''http://testserver/x/3f9a0c42'',
            created_embed_url = ''https://forms.example.com/f1''\<rparr>,
      Some sample_store)"
  by (simp add: create_exam_def insert_one_exam_def called_def Let_def sample_env_def
      empty_store_def sample_body_def sample_request_def sample_store_def toy_slug sample_id
      rstrip_def)

subsection \<open>The digest of a password\<close>

lemma hexdigest_inject:
  fixes w v :: "'a::len word"
  assumes "4 dvd LENGTH('a)"
  shows "hexdigest w = hexdigest v \<longleftrightarrow> w = v"
proof
  assume eq: "hexdigest w = hexdigest v"
  from assms obtain k where k: "LENGTH('a) = 4 * k" by (elim dvdE)
  have pow: "(16::nat) ^ (LENGTH('a) div 4) = 2 ^ LENGTH('a)"
    unfolding k by (simp add: power_mult)
  have small: "unat u mod 16 ^ (LENGTH('a) div 4) = unat u" for u :: "'a word"
    unfolding pow by (simp add: unsigned_less)
  have "nat_of_hex 0 (hexdigest w) = nat_of_hex 0 (hexdigest v)"
    using eq by simp
  then have "unat w = unat v"
    by (simp add: hexdigest_def nat_of_hex_hex_of_nat small)
  then show "w = v" by (rule word_unat_eq_iff [THEN iffD2])
qed simp

lemma hash_password_eq_iff:
  "hash_password sha256 p = hash_password sha256 q \<longleftrightarrow> sha256 p = sha256 q"
  by (simp add: hash_password_def hexdigest_inject)

lemma toy_hash_wrong: "hash_password toy_sha256 ''wrong'' \<noteq> hash_password toy_sha256 ''secret123''"
  by (simp add: hash_password_eq_iff toy_sha256_def)

subsection \<open>Stripping trailing characters\<close>

lemma rstrip_replicate: "\<exists>n. s = rstrip c s @ replicate n c"
proof -
  have "\<exists>n. xs = replicate n c @ dropWhile (\<lambda>x. x = c) xs" for xs
  proof (induction xs)
    case Nil
    then show ?case by simp
  next
    case (Cons x xs)
    show ?case
    proof (cases "x = c")
      case True
      from Cons.IH obtain n where "xs = replicate n c @ dropWhile (\<lambda>x. x = c) xs" ..
      then have "x # xs = replicate (Suc n) c @ dropWhile (\<lambda>x. x = c) (x # xs)"
        using True by simp
      then show ?thesis ..
    next
      case False
      then have "x # xs = replicate 0 c @ dropWhile (\<lambda>x. x = c) (x # xs)" by simp
      then show ?thesis ..
    qed
  qed
  then obtain n where "rev s = replicate n c @ dropWhile (\<lambda>x. x = c) (rev s)" ..
  then have "rev (rev s) = rev (replicate n c @ dropWhile (\<lambda>x. x = c) (rev s))" by simp
  then have "s = rstrip c s @ replicate n c" by (simp add: rstrip_def)
  then show ?thesis ..
qed

lemma rstrip_last: "rstrip c s \<noteq> [] \<Longrightarrow> last (rstrip c s) \<noteq> c"
proof -
  assume ne: "rstrip c s \<noteq> []"
  then have d: "dropWhile (\<lambda>x. x = c) (rev s) \<noteq> []" by (simp add: rstrip_def)
  then have "hd (dropWhile (\<lambda>x. x = c) (rev s)) \<noteq> c"
    using hd_dropWhile [of "\<lambda>x. x = c" "rev s"] by simp
  with d show ?thesis by (simp add: rstrip_def last_rev)
qed

lemma sample_create_frontend:
  "create_exam toy_sha256 toy_sha1
      (sample_env\<lparr>FRONTEND_BASE_URL := Some ''https://proctor.example.com//''\<rparr>)
      (Some empty_store) sample_body sample_request
   = (Inr \<lparr>created_id = ''65f0a1b2c3d4e5f601234567'',
            created_slug = ''3f9a0c42'',
            short_url = ''https://proctor.example.com/x/3f9a0c42'',
            created_embed_url = ''https://forms.example.com/f1''\<rparr>,
      Some sample_store)"
  by (simp add: create_exam_def insert_one_exam_def called_def Let_def sample_env_def
      empty_store_def sample_body_def sample_request_def sample_store_def toy_slug sample_id
      rstrip_def)

text \<open>A second exam created in the sample store from the same 16 random bytes.\<close>

lemma sample_create_second:
  "create_exam toy_sha256 toy_sha1
      (sample_env\<lparr>new_object_id := 0x65f0a1b2c3d4e5f601234568\<rparr>)
      (Some sample_store)
      \<lparr>ec_url = ''https://forms.example.com/f2'', ec_password = ''other''\<rparr>
      sample_request
   = (Inr \<lparr>created_id = ''65f0a1b2c3d4e5f601234568'',
            created_slug = ''3f9a0c42'',
            short_url = ''http://testserver/x/3f9a0c42'',
            created_embed_url = ''https://forms.example.com/f2''\<rparr>,
      Some (sample_store
        \<lparr>exam := exam sample_store @
           [(0x65f0a1b2c3d4e5f601234568,
             \<lparr>url = ''https://forms.example.com/f2'',
              password_hash = hash_password toy_sha256 ''other'',
              slug = ''3f9a0c42'',
              created_at = 1700000000000,
              updated_at = 1700000000000\<rparr>)],
         calls := [InsertOneExam, InsertOneExam]\<rparr>))"
proof -
  have id2: "str_of_id 0x65f0a1b2c3d4e5f601234568 = ''65f0a1b2c3d4e5f601234568''"
    by (simp add: str_of_id_def hexdigest_def hex_of_nat_def hexdigits_def
        upt_rec [of _ "numeral _"])
  show ?thesis
    by (simp add: create_exam_def insert_one_exam_def called_def Let_def sample_env_def
        sample_store_def sample_request_def toy_slug id2 rstrip_def)
qed



subsection \<open>Logging and exporting\<close>

lemma log_event_Inr:
  assumes "log_event now db id_str body request = (Inr r, db')"
  shows "\<exists>st i d. db = Some st \<and> ObjectId id_str = Some i
           \<and> find (\<lambda>d. fst d = i) (exam st) = Some d
           \<and> db' = Some (insert_one_examlog
                \<lparr>exam_id = i, type = lb_type body,
                 details = (case lb_details body of None \<Rightarrow> [] | Some d \<Rightarrow> d),
                 client_ts = lb_ts body, server_ts = now,
                 ip = client_host request, ua = user_agent request\<rparr>
                (called (FindOneExamById i) st))"
  using assms
  by (auto simp: log_event_def oid_def find_one_exam_by_id_def Let_def
      split: option.splits sum.splits)

lemma client_time_falsy:
  "client_ts l = None \<or> client_ts l = Some 0 \<Longrightarrow> client_time fromtimestamp_iso l = Inr []"
  by (auto simp: client_time_def)

lemma append_rows_ok:
  assumes "\<forall>l\<in>set ls. \<exists>t. client_time f l = Inr t"
  shows "append_rows f g ws i ls =
           Inr (ws @ map (\<lambda>(k, l). [Number k, Text (type l), Text (details l),
                                      Text (projr (client_time f l)), Text (g (server_ts l)),
                                      opt_cell (ip l), opt_cell (ua l)])
                         (enumerate i ls))"
  using assms
proof (induction ls arbitrary: ws i)
  case Nil
  then show ?case by simp
next
  case (Cons l ls)
  from Cons.prems obtain t where t: "client_time f l = Inr t" by auto
  have rest: "\<forall>l\<in>set ls. \<exists>t. client_time f l = Inr t" using Cons.prems by simp
  show ?case
    by (simp add: t Cons.IH [OF rest])
qed

lemma append_rows_fail:
  assumes "l \<in> set ls" and "client_time f l = Inl e"
  shows "\<exists>e'. append_rows f g ws i ls = Inl e'"
  using assms
proof (induction ls arbitrary: ws i)
  case Nil
  then show ?case by simp
next
  case (Cons a ls)
  then show ?case by (cases "client_time f a") auto
qed

lemma append_rows_Inr:
  assumes "append_rows f g ws i ls = Inr ws'"
  shows "\<forall>l\<in>set ls. \<exists>t. client_time f l = Inr t"
proof
  fix l assume l: "l \<in> set ls"
  show "\<exists>t. client_time f l = Inr t"
  proof (cases "client_time f l")
    case (Inl e)
    from append_rows_fail [OF l Inl, of g ws i] assms show ?thesis by simp
  next
    case (Inr t)
    then show ?thesis by blast
  qed
qed

lemma export_log_ok:
  assumes "ObjectId id_str = Some i"
      and "find (\<lambda>d. fst d = i) (exam st) = Some d"
      and "\<forall>l\<in>set (filter (\<lambda>l. exam_id l = i) (examlog st)). \<exists>t. client_time f l = Inr t"
  shows "export_log True f g (Some st) id_str =
           (Inr \<lparr>sheet_title = ''Proctor Log'',
                 sheet_rows =
                   header_row #
                   map (\<lambda>(k, l). [Number k, Text (type l), Text (details l),
                                   Text (projr (client_time f l)), Text (g (server_ts l)),
                                   opt_cell (ip l), opt_cell (ua l)])
                       (enumerate 1
                          (sort_key server_ts (filter (\<lambda>l. exam_id l = i) (examlog st)))),
                 content_disposition = ''attachment; filename=exam_'' @ id_str @ ''_log.xlsx'',
                 content_type =
                   ''application/vnd.openxmlformats-officedocument.spreadsheetml.sheet''\<rparr>,
            Some (called (FindExamlogSorted i) (called (FindOneExamById i) st)))"
proof -
  let ?logs = "sort_key server_ts (filter (\<lambda>l. exam_id l = i) (examlog st))"
  have "\<forall>l\<in>set ?logs. \<exists>t. client_time f l = Inr t"
    using assms(3) by simp
  from append_rows_ok [OF this, of g "[header_row]" 1]
  have rows: "append_rows f g [header_row] 1 ?logs =
          Inr ([header_row] @ map (\<lambda>(k, l). [Number k, Text (type l), Text (details l),
                                      Text (projr (client_time f l)), Text (g (server_ts l)),
                                      opt_cell (ip l), opt_cell (ua l)])
                         (enumerate 1 ?logs))" .
  show ?thesis
    using assms(1,2) rows
    by (simp add: export_log_def oid_def find_one_exam_by_id_def find_examlog_sorted_def
        called_def)
qed

lemma export_log_Inr:
  assumes "export_log ox f g db id_str = (Inr r, db')"
  shows "\<exists>st i d. db = Some st \<and> ObjectId id_str = Some i
           \<and> find (\<lambda>d. fst d = i) (exam st) = Some d \<and> ox
           \<and> (\<forall>l\<in>set (filter (\<lambda>l. exam_id l = i) (examlog st)). \<exists>t. client_time f l = Inr t)"
proof -
  obtain st where db: "db = Some st"
    using assms by (cases db) (simp_all add: export_log_def)
  obtain i where i: "ObjectId id_str = Some i"
    using assms db by (cases "ObjectId id_str") (simp_all add: export_log_def oid_def)
  obtain d where d: "find (\<lambda>d. fst d = i) (exam st) = Some d"
    using assms db i
    by (cases "find (\<lambda>d. fst d = i) (exam st)")
       (simp_all add: export_log_def oid_def find_one_exam_by_id_def)
  have ox: ox
    using assms db i d
    by (cases ox) (simp_all add: export_log_def oid_def find_one_exam_by_id_def
        find_examlog_sorted_def)
  obtain ws where "append_rows f g [header_row] 1
      (sort_key server_ts (filter (\<lambda>l. exam_id l = i) (examlog st))) = Inr ws"
    using assms db i d ox
    by (cases "append_rows f g [header_row] 1
      (sort_key server_ts (filter (\<lambda>l. exam_id l = i) (examlog st)))")
       (simp_all add: export_log_def oid_def find_one_exam_by_id_def find_examlog_sorted_def
        called_def)
  from append_rows_Inr [OF this]
  have "\<forall>l\<in>set (filter (\<lambda>l. exam_id l = i) (examlog st)). \<exists>t. client_time f l = Inr t"
    by simp
  with db i d ox show ?thesis by blast
qed


lemma sample_exam_id: "ObjectId ''65f0a1b2c3d4e5f601234567'' = Some 0x65f0a1b2c3d4e5f601234567"
  by (simp add: ObjectId_def hexval_def)

lemma export_log_sheet:
  assumes "export_log ox f g (Some st) id_str = (Inr r, db')"
      and "ObjectId id_str = Some i"
  shows "sheet_rows r =
           header_row #
           map (\<lambda>(k, l). [Number k, Text (type l), Text (details l),
                           Text (projr (client_time f l)), Text (g (server_ts l)),
                           opt_cell (ip l), opt_cell (ua l)])
               (enumerate 1 (sort_key server_ts (filter (\<lambda>l. exam_id l = i) (examlog st))))"
proof -
  from export_log_Inr [OF assms(1)] assms(2) obtain d where
    d: "find (\<lambda>d. fst d = i) (exam st) = Some d" and ox: ox and
    ok: "\<forall>l\<in>set (filter (\<lambda>l. exam_id l = i) (examlog st)). \<exists>t. client_time f l = Inr t"
    by auto
  from export_log_ok [OF assms(2) d ok, of g] assms(1) ox show ?thesis by auto
qed

text \<open>
  What an export holds when every client time can be rendered: the header, then one row
  for each entry of the exam, in ascending order of \<^verbatim>\<open>server_ts\<close>, numbered from 1.
\<close>

lemma export_log_rows:
  assumes "ObjectId id_str = Some i"
      and "find (\<lambda>d. fst d = i) (exam st) = Some d"
      and "\<forall>l\<in>set (filter (\<lambda>l. exam_id l = i) (examlog st)). \<exists>t. client_time f l = Inr t"
      and "logs = sort_key server_ts (filter (\<lambda>l. exam_id l = i) (examlog st))"
      and "n = length (filter (\<lambda>l. exam_id l = i) (examlog st))"
  shows "\<exists>r db'. export_log True f g (Some st) id_str = (Inr r, db')
           \<and> hd (sheet_rows r) = header_row
           \<and> length (sheet_rows r) = Suc n
           \<and> length logs = n
           \<and> mset logs = mset (filter (\<lambda>l. exam_id l = i) (examlog st))
           \<and> sorted (map server_ts logs)
           \<and> (\<forall>k<n. sheet_rows r ! Suc k =
                  [Number (Suc k), Text (type (logs ! k)), Text (details (logs ! k)),
                   Text (projr (client_time f (logs ! k))), Text (g (server_ts (logs ! k))),
                   opt_cell (ip (logs ! k)), opt_cell (ua (logs ! k))])"
proof -
  note run = export_log_ok [OF assms(1,2,3), of g, folded assms(4)]
  have len: "length logs = n" by (simp add: assms(4,5))
  have "mset logs = mset (filter (\<lambda>l. exam_id l = i) (examlog st))"
    by (simp add: assms(4))
  moreover have "sorted (map server_ts logs)"
    by (simp add: assms(4))
  ultimately show ?thesis
    using len by (simp add: run nth_enumerate_eq)
qed

text \<open>
  And when one cannot: an entry of the exam whose client time is present, not 0 and
  refused by \<^verbatim>\<open>datetime.fromtimestamp\<close> makes every export of the exam fail.
\<close>

lemma export_log_raises:
  assumes "ObjectId id_str = Some i"
      and "find (\<lambda>d. fst d = i) (exam st) = Some d"
      and "l \<in> set (examlog st)" and "exam_id l = i"
      and "client_ts l = Some t" and "t \<noteq> 0" and "f t = None"
  shows "\<exists>e. fst (export_log ox f g (Some st) id_str) = Inl e"
proof (cases "fst (export_log ox f g (Some st) id_str)")
  case (Inl e)
  then show ?thesis by blast
next
  case (Inr r)
  then have "export_log ox f g (Some st) id_str = (Inr r, snd (export_log ox f g (Some st) id_str))"
    by (simp add: prod_eq_iff)
  from export_log_Inr [OF this] assms(1)
  have "\<forall>l\<in>set (filter (\<lambda>l. exam_id l = i) (examlog st)). \<exists>t. client_time f l = Inr t"
    by auto
  with assms(3,4) obtain s where "client_time f l = Inr s" by auto
  with assms(5,6,7) show ?thesis by (simp add: client_time_def)
qed

lemma sample_export:
  "export_log True toy_fromtimestamp_iso toy_utc_iso
      (Some (sample_store\<lparr>examlog := sample_events\<rparr>)) ''65f0a1b2c3d4e5f601234567''
   = (Inr \<lparr>sheet_title = ''Proctor Log'',
            sheet_rows =
              [[Text ''#'', Text ''Event'', Text ''Details'', Text ''Client Time'',
                Text ''Server Time'', Text ''IP'', Text ''User Agent''],
               [Number 1, Text ''blur'', Text [], Text [], Text ''utc time'',
                Text ''127.0.0.1'', Blank],
               [Number 2, Text ''focus'', Text ''back'', Text [], Text ''utc time'',
                Text ''127.0.0.1'', Text ''pytest''],
               [Number 3, Text ''fullscreen-exit'', Text [], Text ''local time'',
                Text ''utc time'', Blank, Text ''pytest'']],
            content_disposition =
              ''attachment; filename=exam_65f0a1b2c3d4e5f601234567_log.xlsx'',
            content_type =
              ''application/vnd.openxmlformats-officedocument.spreadsheetml.sheet''\<rparr>,
      Some (sample_store
        \<lparr>examlog := sample_events,
         calls := [InsertOneExam, FindOneExamById 0x65f0a1b2c3d4e5f601234567,
                   FindExamlogSorted 0x65f0a1b2c3d4e5f601234567]\<rparr>))"
  by (simp add: export_log_def oid_def sample_exam_id find_one_exam_by_id_def
      find_examlog_sorted_def called_def sample_store_def sample_events_def header_row_def
      client_time_def toy_fromtimestamp_iso_def toy_utc_iso_def opt_cell_def)

lemma sample_sorted:
  "sort_key server_ts
     (filter (\<lambda>l. exam_id l = 0x65f0a1b2c3d4e5f601234567)
        (examlog (sample_store\<lparr>examlog := sample_events\<rparr>)))
   = [sample_events ! 1, sample_events ! 0, sample_events ! 2]"
  by (simp add: sample_events_def)

section \<open>The claims\<close>

subsection \<open>C1: verifying a password\<close>

text \<open>
  C1. For every exam created by \<open>create_exam\<close>, at any later time (after any list
  \<open>later\<close> of further requests) and for every password \<open>p\<close>, \<open>verify_exam_password\<close> on
  the identifier \<open>create_exam\<close> returned answers \<open>ok = True\<close> with the message \<open>OK\<close> if
  \<open>hash_password p\<close> equals \<open>hash_password\<close> of the password given at creation, and
  \<open>ok = False\<close> with the message \<open>Invalid password\<close> otherwise. By
  \<open>hash_password_eq_iff\<close> the two texts are equal exactly when the two digests are.
\<close>

theorem verify_after_create:
  assumes "create_exam sha256 sha1 env db body request = (Inr r, db')"
  shows "fst (verify_exam_password sha256
                (fold (app sha256 sha1 openpyxl_installed fromtimestamp_iso utc_iso) later db')
                (created_id r) \<lparr>vb_password = p\<rparr>)
         = Inr \<lparr>ok = (hash_password sha256 p = hash_password sha256 (ec_password body)),
                message = (if hash_password sha256 p = hash_password sha256 (ec_password body)
                           then ''OK'' else ''Invalid password'')\<rparr>"
proof -
  let ?i = "new_object_id env"
  let ?doc = "\<lparr>url = ec_url body,
               password_hash = hash_password sha256 (ec_password body),
               slug = make_slug sha1 (urandom16 env),
               created_at = now_created env,
               updated_at = now_updated env\<rparr>"
  from create_exam_Inr [OF assms] obtain st where
    fresh: "find (\<lambda>d. fst d = ?i) (exam st) = None" and
    db': "db' = Some (called InsertOneExam (st\<lparr>exam := exam st @ [(?i, ?doc)]\<rparr>))" and
    rid: "created_id r = str_of_id ?i"
    by blast
  let ?st1 = "called InsertOneExam (st\<lparr>exam := exam st @ [(?i, ?doc)]\<rparr>)"
  have "find (\<lambda>d. fst d = ?i) (exam ?st1) = Some (?i, ?doc)"
    using fresh by (simp add: called_def find_append)
  from fold_app_keeps_found [OF this, of sha256 sha1 openpyxl_installed fromtimestamp_iso utc_iso later]
  obtain st2 where
    st2: "fold (app sha256 sha1 openpyxl_installed fromtimestamp_iso utc_iso) later (Some ?st1) = Some st2" and
    found: "find (\<lambda>d. fst d = ?i) (exam st2) = Some (?i, ?doc)"
    by blast
  show ?thesis
    unfolding db' st2 rid
    by (simp add: verify_exam_password_def oid_str_of_id find_one_exam_by_id_def found Let_def)
qed

theorem verify_after_create_witness:
  "create_exam toy_sha256 toy_sha1 sample_env (Some empty_store) sample_body sample_request
     = (Inr \<lparr>created_id = ''65f0a1b2c3d4e5f601234567'',
              created_slug = ''3f9a0c42'',
              short_url = ''http://testserver/x/3f9a0c42'',
              created_embed_url = ''https://forms.example.com/f1''\<rparr>,
        Some sample_store)
   \<and> fst (verify_exam_password toy_sha256
            (fold (app toy_sha256 toy_sha1 True toy_fromtimestamp_iso toy_utc_iso)
               [GetExamBySlug ''3f9a0c42''] (Some sample_store))
            ''65f0a1b2c3d4e5f601234567'' \<lparr>vb_password = ''secret123''\<rparr>)
     = Inr \<lparr>ok = True, message = ''OK''\<rparr>
   \<and> fst (verify_exam_password toy_sha256
            (fold (app toy_sha256 toy_sha1 True toy_fromtimestamp_iso toy_utc_iso)
               [GetExamBySlug ''3f9a0c42''] (Some sample_store))
            ''65f0a1b2c3d4e5f601234567'' \<lparr>vb_password = ''wrong''\<rparr>)
     = Inr \<lparr>ok = False, message = ''Invalid password''\<rparr>"
  using sample_create
    verify_after_create [OF sample_create, of True toy_fromtimestamp_iso toy_utc_iso
      "[GetExamBySlug ''3f9a0c42'']" "''secret123''"]
    verify_after_create [OF sample_create, of True toy_fromtimestamp_iso toy_utc_iso
      "[GetExamBySlug ''3f9a0c42'']" "''wrong''"]
    toy_hash_wrong
  by (simp add: sample_body_def)

subsection \<open>C5: the slug\<close>

text \<open>
  C5. Whenever \<open>create_exam\<close> returns, the slug in its answer has length 8, consists of
  lowercase hexadecimal digits only, and is the first 8 characters of the hexadecimal
  digest of the 16 random bytes.
\<close>

theorem create_exam_slug:
  assumes "create_exam sha256 sha1 env db body request = (Inr r, db')"
  shows "length (created_slug r) = 8
       \<and> set (created_slug r) \<subseteq> set ''0123456789abcdef''
       \<and> created_slug r = take 8 (hexdigest (sha1 (urandom16 env)))"
proof -
  from create_exam_Inr [OF assms]
  have slug_eq: "created_slug r = make_slug sha1 (urandom16 env)" by blast
  show ?thesis
    unfolding slug_eq
    using length_make_slug [of sha1 "urandom16 env"] set_make_slug [of sha1 "urandom16 env"]
    by (simp add: make_slug_def)
qed

theorem create_exam_slug_witness:
  "create_exam toy_sha256 toy_sha1 sample_env (Some empty_store) sample_body sample_request
     = (Inr \<lparr>created_id = ''65f0a1b2c3d4e5f601234567'',
              created_slug = ''3f9a0c42'',
              short_url = ''http://testserver/x/3f9a0c42'',
              created_embed_url = ''https://forms.example.com/f1''\<rparr>,
        Some sample_store)
   \<and> length ''3f9a0c42'' = 8
   \<and> set ''3f9a0c42'' \<subseteq> set ''0123456789abcdef''
   \<and> ''3f9a0c42'' = take 8 (hexdigest (toy_sha1 (urandom16 sample_env)))"
proof -
  from create_exam_slug [OF sample_create]
  have "length ''3f9a0c42'' = 8
      \<and> set ''3f9a0c42'' \<subseteq> set ''0123456789abcdef''
      \<and> ''3f9a0c42'' = take 8 (hexdigest (toy_sha1 (urandom16 sample_env)))"
    unfolding Created.select_convs .
  with sample_create show ?thesis by (rule conjI)
qed

subsection \<open>C8: the short URL\<close>

text \<open>
  C8. Whenever \<open>create_exam\<close> returns, the short URL in its answer is the base address
  with every trailing slash removed, followed by \<open>/x/\<close> and the slug. The base address
  is the value of \<^verbatim>\<open>FRONTEND_BASE_URL\<close> when that variable is set to a non-empty text, and
  the base URL of the request when it is unset or empty. By \<open>rstrip_replicate\<close> and
  \<open>rstrip_last\<close>, \<open>rstrip\<close> removes trailing slashes and nothing else, and leaves none.
\<close>

theorem create_exam_short_url:
  assumes "create_exam sha256 sha1 env db body request = (Inr r, db')"
  shows "short_url r =
           rstrip CHR ''/''
             (case FRONTEND_BASE_URL env of
                None \<Rightarrow> base_url request
              | Some frontend_base \<Rightarrow>
                  if frontend_base \<noteq> [] then frontend_base else base_url request)
           @ ''/x/'' @ created_slug r"
  using create_exam_Inr [OF assms] by auto

theorem create_exam_short_url_witness:
  "create_exam toy_sha256 toy_sha1
      (sample_env\<lparr>FRONTEND_BASE_URL := Some ''https://proctor.example.com//''\<rparr>)
      (Some empty_store) sample_body sample_request
   = (Inr \<lparr>created_id = ''65f0a1b2c3d4e5f601234567'',
            created_slug = ''3f9a0c42'',
            short_url = ''https://proctor.example.com/x/3f9a0c42'',
            created_embed_url = ''https://forms.example.com/f1''\<rparr>,
      Some sample_store)
   \<and> rstrip CHR ''/'' ''https://proctor.example.com//'' @ ''/x/'' @ ''3f9a0c42''
       = ''https://proctor.example.com/x/3f9a0c42''
   \<and> rstrip CHR ''/'' ''http://testserver/'' @ ''/x/'' @ ''3f9a0c42''
       = ''http://testserver/x/3f9a0c42''"
proof -
  from create_exam_short_url [OF sample_create]
  have unset: "rstrip CHR ''/'' ''http://testserver/'' @ ''/x/'' @ ''3f9a0c42''
        = ''http://testserver/x/3f9a0c42''"
    by (simp add: sample_env_def sample_request_def)
  from create_exam_short_url [OF sample_create_frontend]
  have "rstrip CHR ''/'' ''https://proctor.example.com//'' @ ''/x/'' @ ''3f9a0c42''
        = ''https://proctor.example.com/x/3f9a0c42''"
    by simp
  with sample_create_frontend unset show ?thesis by blast
qed

subsection \<open>C3: the two timestamps\<close>

text \<open>
  C3 says that \<^verbatim>\<open>created_at\<close> and \<^verbatim>\<open>updated_at\<close> of the persisted document are equal.
  \<open>create_exam\<close> reads the clock once for each field, so they are equal only when the
  two readings are. Here the second reading falls in the next millisecond: the call
  succeeds and the document it stores has two different timestamps.
\<close>

theorem create_exam_timestamps_differ:
  "create_exam toy_sha256 toy_sha1 (sample_env\<lparr>now_updated := 1700000000001\<rparr>)
      (Some empty_store) sample_body sample_request
   = (Inr \<lparr>created_id = ''65f0a1b2c3d4e5f601234567'',
            created_slug = ''3f9a0c42'',
            short_url = ''http://testserver/x/3f9a0c42'',
            created_embed_url = ''https://forms.example.com/f1''\<rparr>,
      Some \<lparr>exam = [(0x65f0a1b2c3d4e5f601234567,
                     \<lparr>url = ''https://forms.example.com/f1'',
                      password_hash = hash_password toy_sha256 ''secret123'',
                      slug = ''3f9a0c42'',
                      created_at = 1700000000000,
                      updated_at = 1700000000001\<rparr>)],
            examlog = [],
            calls = [InsertOneExam]\<rparr>)
   \<and> (1700000000000 :: int) \<noteq> 1700000000001"
  by (simp add: create_exam_def insert_one_exam_def called_def Let_def sample_env_def
      empty_store_def sample_body_def sample_request_def toy_slug sample_id rstrip_def)

text \<open>
  C3, as amended. Whenever \<open>create_exam\<close> returns, the store holds one more exam
  document, the last one, under the new identifier; its \<^verbatim>\<open>created_at\<close> is the first
  reading of the clock and its \<^verbatim>\<open>updated_at\<close> the second, and the two fields are equal
  exactly when the two readings are equal.
\<close>

theorem create_exam_timestamps:
  assumes "create_exam sha256 sha1 env (Some st) body request = (Inr r, db')"
  shows "\<exists>st' doc. db' = Some st'
           \<and> exam st' = exam st @ [(new_object_id env, doc)]
           \<and> created_at doc = now_created env
           \<and> updated_at doc = now_updated env
           \<and> (created_at doc = updated_at doc \<longleftrightarrow> now_created env = now_updated env)"
  using create_exam_Inr [OF assms] by (auto simp: called_def)

theorem create_exam_timestamps_witness:
  "create_exam toy_sha256 toy_sha1 sample_env (Some empty_store) sample_body sample_request
     = (Inr \<lparr>created_id = ''65f0a1b2c3d4e5f601234567'',
              created_slug = ''3f9a0c42'',
              short_url = ''http://testserver/x/3f9a0c42'',
              created_embed_url = ''https://forms.example.com/f1''\<rparr>,
        Some sample_store)
   \<and> map (\<lambda>d. (created_at (snd d), updated_at (snd d))) (exam sample_store)
       = [(now_created sample_env, now_updated sample_env)]"
proof -
  from create_exam_timestamps [OF sample_create]
  have "map (\<lambda>d. (created_at (snd d), updated_at (snd d))) (exam sample_store)
        = [(now_created sample_env, now_updated sample_env)]"
    by (auto simp: empty_store_def)
  with sample_create show ?thesis by (rule conjI)
qed

subsection \<open>C6: resolving the slug of a new exam\<close>

text \<open>
  C6 says that \<open>get_exam_by_slug\<close> on the slug \<open>create_exam\<close> returned gives back the
  same URL and the same identifier. \<open>create_exam\<close> never looks whether the slug is
  already taken, and \<open>find_one\<close> returns the first exam with the slug. Here a second
  exam is created from the same 16 random bytes as the sample exam, so with the same
  slug whatever the digest: resolving the slug gives the first exam's URL and
  identifier, not the second's.
\<close>

theorem slug_collision:
  "create_exam toy_sha256 toy_sha1
      (sample_env\<lparr>new_object_id := 0x65f0a1b2c3d4e5f601234568\<rparr>)
      (Some sample_store)
      \<lparr>ec_url = ''https://forms.example.com/f2'', ec_password = ''other''\<rparr>
      sample_request
   = (Inr \<lparr>created_id = ''65f0a1b2c3d4e5f601234568'',
            created_slug = ''3f9a0c42'',
            short_url = ''http://testserver/x/3f9a0c42'',
            created_embed_url = ''https://forms.example.com/f2''\<rparr>,
      Some (sample_store
        \<lparr>exam := exam sample_store @
           [(0x65f0a1b2c3d4e5f601234568,
             \<lparr>url = ''https://forms.example.com/f2'',
              password_hash = hash_password toy_sha256 ''other'',
              slug = ''3f9a0c42'',
              created_at = 1700000000000,
              updated_at = 1700000000000\<rparr>)],
         calls := [InsertOneExam, InsertOneExam]\<rparr>))
   \<and> fst (get_exam_by_slug
        (Some (sample_store
          \<lparr>exam := exam sample_store @
             [(0x65f0a1b2c3d4e5f601234568,
               \<lparr>url = ''https://forms.example.com/f2'',
                password_hash = hash_password toy_sha256 ''other'',
                slug = ''3f9a0c42'',
                created_at = 1700000000000,
                updated_at = 1700000000000\<rparr>)],
           calls := [InsertOneExam, InsertOneExam]\<rparr>))
        ''3f9a0c42'')
     = Inr \<lparr>resolved_id = ''65f0a1b2c3d4e5f601234567'',
            resolved_slug = ''3f9a0c42'',
            resolved_embed_url = ''https://forms.example.com/f1''\<rparr>"
proof -
  have "fst (get_exam_by_slug
        (Some (sample_store
          \<lparr>exam := exam sample_store @
             [(0x65f0a1b2c3d4e5f601234568,
               \<lparr>url = ''https://forms.example.com/f2'',
                password_hash = hash_password toy_sha256 ''other'',
                slug = ''3f9a0c42'',
                created_at = 1700000000000,
                updated_at = 1700000000000\<rparr>)],
           calls := [InsertOneExam, InsertOneExam]\<rparr>))
        ''3f9a0c42'')
     = Inr \<lparr>resolved_id = ''65f0a1b2c3d4e5f601234567'',
            resolved_slug = ''3f9a0c42'',
            resolved_embed_url = ''https://forms.example.com/f1''\<rparr>"
    by (simp add: get_exam_by_slug_def find_one_exam_by_slug_def called_def sample_store_def
        sample_id)
  with sample_create_second show ?thesis by (rule conjI)
qed

text \<open>
  C6, as amended. When no exam stored before has the slug that \<open>create_exam\<close> returns,
  then at any later time (after any list \<open>later\<close> of further requests)
  \<open>get_exam_by_slug\<close> on that slug answers with the identifier and the embed URL that
  \<open>create_exam\<close> returned, and that URL is the one submitted.
\<close>

theorem get_exam_by_slug_after_create:
  assumes "create_exam sha256 sha1 env (Some st) body request = (Inr r, db')"
      and "find (\<lambda>d. slug (snd d) = created_slug r) (exam st) = None"
  shows "fst (get_exam_by_slug
                (fold (app sha256 sha1 openpyxl_installed fromtimestamp_iso utc_iso) later db')
                (created_slug r))
         = Inr \<lparr>resolved_id = created_id r,
                resolved_slug = created_slug r,
                resolved_embed_url = created_embed_url r\<rparr>
       \<and> created_embed_url r = ec_url body"
proof -
  let ?i = "new_object_id env"
  let ?doc = "\<lparr>url = ec_url body,
               password_hash = hash_password sha256 (ec_password body),
               slug = make_slug sha1 (urandom16 env),
               created_at = now_created env,
               updated_at = now_updated env\<rparr>"
  let ?st1 = "called InsertOneExam (st\<lparr>exam := exam st @ [(?i, ?doc)]\<rparr>)"
  from create_exam_Inr [OF assms(1)] have
    db': "db' = Some ?st1" and
    rid: "created_id r = str_of_id ?i" and
    rslug: "created_slug r = make_slug sha1 (urandom16 env)" and
    rurl: "created_embed_url r = ec_url body"
    by auto
  have "find (\<lambda>d. slug (snd d) = created_slug r) (exam ?st1) = Some (?i, ?doc)"
    using assms(2) by (simp add: called_def find_append rslug)
  from fold_app_keeps_found [OF this, of sha256 sha1 openpyxl_installed fromtimestamp_iso utc_iso later]
  obtain st2 where
    st2: "fold (app sha256 sha1 openpyxl_installed fromtimestamp_iso utc_iso) later (Some ?st1) = Some st2" and
    found: "find (\<lambda>d. slug (snd d) = created_slug r) (exam st2) = Some (?i, ?doc)"
    by blast
  show ?thesis
    unfolding db' st2
    by (simp add: get_exam_by_slug_def find_one_exam_by_slug_def found rid rurl)
qed

theorem get_exam_by_slug_after_create_witness:
  "create_exam toy_sha256 toy_sha1 sample_env (Some empty_store) sample_body sample_request
     = (Inr \<lparr>created_id = ''65f0a1b2c3d4e5f601234567'',
              created_slug = ''3f9a0c42'',
              short_url = ''http://testserver/x/3f9a0c42'',
              created_embed_url = ''https://forms.example.com/f1''\<rparr>,
        Some sample_store)
   \<and> find (\<lambda>d. slug (snd d) = ''3f9a0c42'') (exam empty_store) = None
   \<and> fst (get_exam_by_slug
            (fold (app toy_sha256 toy_sha1 True toy_fromtimestamp_iso toy_utc_iso)
               [VerifyExamPassword ''65f0a1b2c3d4e5f601234567'' \<lparr>vb_password = ''wrong''\<rparr>]
               (Some sample_store))
            ''3f9a0c42'')
     = Inr \<lparr>resolved_id = ''65f0a1b2c3d4e5f601234567'',
            resolved_slug = ''3f9a0c42'',
            resolved_embed_url = ''https://forms.example.com/f1''\<rparr>"
proof -
  have fresh: "find (\<lambda>d. slug (snd d) = ''3f9a0c42'') (exam empty_store) = None"
    by (simp add: empty_store_def)
  then have fresh':
    "find (\<lambda>d. slug (snd d) =
        created_slug \<lparr>created_id = ''65f0a1b2c3d4e5f601234567'',
              created_slug = ''3f9a0c42'',
              short_url = ''http://testserver/x/3f9a0c42'',
              created_embed_url = ''https://forms.example.com/f1''\<rparr>) (exam empty_store) = None"
    by simp
  from get_exam_by_slug_after_create [OF sample_create fresh', of True toy_fromtimestamp_iso
      toy_utc_iso "[VerifyExamPassword ''65f0a1b2c3d4e5f601234567'' \<lparr>vb_password = ''wrong''\<rparr>]"]
  have "fst (get_exam_by_slug
            (fold (app toy_sha256 toy_sha1 True toy_fromtimestamp_iso toy_utc_iso)
               [VerifyExamPassword ''65f0a1b2c3d4e5f601234567'' \<lparr>vb_password = ''wrong''\<rparr>]
               (Some sample_store))
            ''3f9a0c42'')
     = Inr \<lparr>resolved_id = ''65f0a1b2c3d4e5f601234567'',
            resolved_slug = ''3f9a0c42'',
            resolved_embed_url = ''https://forms.example.com/f1''\<rparr>"
    unfolding Created.select_convs by (rule conjunct1)
  with sample_create fresh show ?thesis by blast
qed

subsection \<open>C4: identifiers that resolve to no exam\<close>



subsection \<open>C9: a failed log request writes nothing\<close>



subsection \<open>C7: exporting an exam without events\<close>

text \<open>
  C7. With a configured store and the spreadsheet encoder importable, for every exam
  that exists and has no logged event, \<open>export_log\<close> succeeds and its sheet is the
  header row alone: the seven columns \<open>#\<close>, \<open>Event\<close>, \<open>Details\<close>, \<open>Client Time\<close>,
  \<open>Server Time\<close>, \<open>IP\<close>, \<open>User Agent\<close>.
\<close>

theorem export_log_no_events:
  assumes "ObjectId id_str = Some i"
      and "find (\<lambda>d. fst d = i) (exam st) = Some d"
      and "filter (\<lambda>l. exam_id l = i) (examlog st) = []"
  shows "fst (export_log True fromtimestamp_iso utc_iso (Some st) id_str) =
           Inr \<lparr>sheet_title = ''Proctor Log'',
                sheet_rows =
                  [[Text ''#'', Text ''Event'', Text ''Details'', Text ''Client Time'',
                    Text ''Server Time'', Text ''IP'', Text ''User Agent'']],
                content_disposition = ''attachment; filename=exam_'' @ id_str @ ''_log.xlsx'',
                content_type =
                  ''application/vnd.openxmlformats-officedocument.spreadsheetml.sheet''\<rparr>"
proof -
  have "\<forall>l\<in>set (filter (\<lambda>l. exam_id l = i) (examlog st)).
          \<exists>t. client_time fromtimestamp_iso l = Inr t"
    using assms(3) by simp
  from export_log_ok [OF assms(1,2) this, of utc_iso] show ?thesis
    by (simp add: assms(3) header_row_def)
qed

theorem export_log_no_events_witness:
  "ObjectId ''65f0a1b2c3d4e5f601234567'' = Some 0x65f0a1b2c3d4e5f601234567
   \<and> find (\<lambda>d. fst d = 0x65f0a1b2c3d4e5f601234567) (exam sample_store)
       = Some (hd (exam sample_store))
   \<and> filter (\<lambda>l. exam_id l = 0x65f0a1b2c3d4e5f601234567) (examlog sample_store) = []
   \<and> fst (export_log True toy_fromtimestamp_iso toy_utc_iso (Some sample_store)
            ''65f0a1b2c3d4e5f601234567'') =
       Inr \<lparr>sheet_title = ''Proctor Log'',
            sheet_rows =
              [[Text ''#'', Text ''Event'', Text ''Details'', Text ''Client Time'',
                Text ''Server Time'', Text ''IP'', Text ''User Agent'']],
            content_disposition =
              ''attachment; filename=exam_65f0a1b2c3d4e5f601234567_log.xlsx'',
            content_type =
              ''application/vnd.openxmlformats-officedocument.spreadsheetml.sheet''\<rparr>"
proof -
  have a: "find (\<lambda>d. fst d = 0x65f0a1b2c3d4e5f601234567) (exam sample_store)
       = Some (hd (exam sample_store))"
    by (simp add: sample_store_def)
  have b: "filter (\<lambda>l. exam_id l = 0x65f0a1b2c3d4e5f601234567) (examlog sample_store) = []"
    by (simp add: sample_store_def)
  from export_log_no_events [OF sample_exam_id a b, of toy_fromtimestamp_iso toy_utc_iso]
  have "fst (export_log True toy_fromtimestamp_iso toy_utc_iso (Some sample_store)
            ''65f0a1b2c3d4e5f601234567'') =
       Inr \<lparr>sheet_title = ''Proctor Log'',
            sheet_rows =
              [[Text ''#'', Text ''Event'', Text ''Details'', Text ''Client Time'',
                Text ''Server Time'', Text ''IP'', Text ''User Agent'']],
            content_disposition =
              ''attachment; filename=exam_65f0a1b2c3d4e5f601234567_log.xlsx'',
            content_type =
              ''application/vnd.openxmlformats-officedocument.spreadsheetml.sheet''\<rparr>"
    by simp
  with sample_exam_id a b show ?thesis by blast
qed

subsection \<open>C10: a client time of 0\<close>

text \<open>
  C10. Whenever \<open>export_log\<close> returns a sheet, the sheet has one row after the header
  for each entry of the exam, and the client-time cell (the fourth) of the row of an
  entry whose \<^verbatim>\<open>client_ts\<close> is absent or 0 is the empty text, whatever
  \<^verbatim>\<open>datetime.fromtimestamp\<close> would make of 0.
\<close>

theorem export_log_client_time_blank:
  assumes "export_log openpyxl_installed fromtimestamp_iso utc_iso (Some st) id_str = (Inr r, db')"
      and "ObjectId id_str = Some i"
      and "logs = sort_key server_ts (filter (\<lambda>l. exam_id l = i) (examlog st))"
  shows "length (sheet_rows r) = Suc (length logs)
       \<and> (\<forall>k<length logs.
             client_ts (logs ! k) = None \<or> client_ts (logs ! k) = Some 0 \<longrightarrow>
             sheet_rows r ! Suc k ! 3 = Text [])"
proof -
  note sheet = export_log_sheet [OF assms(1,2), folded assms(3)]
  have len: "length (sheet_rows r) = Suc (length logs)"
    by (simp add: sheet)
  have "sheet_rows r ! Suc k ! 3 = Text []"
    if k: "k < length logs" and falsy: "client_ts (logs ! k) = None \<or> client_ts (logs ! k) = Some 0"
    for k
  proof -
    from client_time_falsy [OF falsy] have "client_time fromtimestamp_iso (logs ! k) = Inr []" .
    then show ?thesis
      using k by (simp add: sheet nth_enumerate_eq)
  qed
  with len show ?thesis by blast
qed

theorem export_log_client_time_blank_witness:
  "export_log True toy_fromtimestamp_iso toy_utc_iso
      (Some (sample_store\<lparr>examlog := sample_events\<rparr>)) ''65f0a1b2c3d4e5f601234567''
   = (Inr \<lparr>sheet_title = ''Proctor Log'',
            sheet_rows =
              [[Text ''#'', Text ''Event'', Text ''Details'', Text ''Client Time'',
                Text ''Server Time'', Text ''IP'', Text ''User Agent''],
               [Number 1, Text ''blur'', Text [], Text [], Text ''utc time'',
                Text ''127.0.0.1'', Blank],
               [Number 2, Text ''focus'', Text ''back'', Text [], Text ''utc time'',
                Text ''127.0.0.1'', Text ''pytest''],
               [Number 3, Text ''fullscreen-exit'', Text [], Text ''local time'',
                Text ''utc time'', Blank, Text ''pytest'']],
            content_disposition =
              ''attachment; filename=exam_65f0a1b2c3d4e5f601234567_log.xlsx'',
            content_type =
              ''application/vnd.openxmlformats-officedocument.spreadsheetml.sheet''\<rparr>,
      Some (sample_store
        \<lparr>examlog := sample_events,
         calls := [InsertOneExam, FindOneExamById 0x65f0a1b2c3d4e5f601234567,
                   FindExamlogSorted 0x65f0a1b2c3d4e5f601234567]\<rparr>))
   \<and> ObjectId ''65f0a1b2c3d4e5f601234567'' = Some 0x65f0a1b2c3d4e5f601234567
   \<and> client_ts (sample_events ! 1) = None
   \<and> client_ts (sample_events ! 0) = Some 0
   \<and> toy_fromtimestamp_iso 0 = Some ''local time''"
proof -
  have vals: "client_ts (sample_events ! 1) = None" "client_ts (sample_events ! 0) = Some 0"
    "toy_fromtimestamp_iso 0 = Some ''local time''"
    by (simp_all add: sample_events_def toy_fromtimestamp_iso_def)
  from export_log_client_time_blank [OF sample_export sample_exam_id sample_sorted [symmetric]]
  have "length [[Text ''#'', Text ''Event'', Text ''Details'', Text ''Client Time'',
                Text ''Server Time'', Text ''IP'', Text ''User Agent''],
               [Number 1, Text ''blur'', Text [], Text [], Text ''utc time'',
                Text ''127.0.0.1'', Blank],
               [Number 2, Text ''focus'', Text ''back'', Text [], Text ''utc time'',
                Text ''127.0.0.1'', Text ''pytest''],
               [Number 3, Text ''fullscreen-exit'', Text [], Text ''local time'',
                Text ''utc time'', Blank, Text ''pytest'']] = Suc 3"
    by simp
  with sample_export sample_exam_id vals show ?thesis by blast
qed

subsection \<open>C2: the rows of an export\<close>

text \<open>
  C2 says that for every exam with \<open>N\<close> logged events \<open>export_log\<close> produces the header
  and \<open>N\<close> rows, ascending by \<^verbatim>\<open>server_ts\<close> and numbered from 1. By \<open>export_log_rows\<close> this
  holds when every client time can be rendered. It fails on this input: \<open>log_event\<close>
  accepts and stores an event of the sample exam whose client time, 1700000000000000,
  is a date in the year 55840; \<^verbatim>\<open>datetime.fromtimestamp\<close> raises ValueError on it, no
  handler catches that, and the export of the exam produces no table.
\<close>

theorem export_log_raises_on_late_client_time:
  "log_event 1700000000500 (Some sample_store) ''65f0a1b2c3d4e5f601234567'' late_body
      sample_request
   = (Inr \<lparr>logged_ok = True\<rparr>,
      Some (sample_store
        \<lparr>examlog := [\<lparr>exam_id = 0x65f0a1b2c3d4e5f601234567, type = ''blur'', details = [],
                       client_ts = Some 1700000000000000, server_ts = 1700000000500,
                       ip = Some ''127.0.0.1'', ua = Some ''pytest''\<rparr>],
         calls := [InsertOneExam, FindOneExamById 0x65f0a1b2c3d4e5f601234567,
                   InsertOneExamlog]\<rparr>))
   \<and> toy_fromtimestamp_iso 1700000000000000 = None
   \<and> export_log True toy_fromtimestamp_iso toy_utc_iso
        (Some (sample_store
          \<lparr>examlog := [\<lparr>exam_id = 0x65f0a1b2c3d4e5f601234567, type = ''blur'', details = [],
                         client_ts = Some 1700000000000000, server_ts = 1700000000500,
                         ip = Some ''127.0.0.1'', ua = Some ''pytest''\<rparr>],
           calls := [InsertOneExam, FindOneExamById 0x65f0a1b2c3d4e5f601234567,
                     InsertOneExamlog]\<rparr>))
        ''65f0a1b2c3d4e5f601234567''
     = (Inl (Unhandled ''datetime.fromtimestamp''),
        Some (sample_store
          \<lparr>examlog := [\<lparr>exam_id = 0x65f0a1b2c3d4e5f601234567, type = ''blur'', details = [],
                         client_ts = Some 1700000000000000, server_ts = 1700000000500,
                         ip = Some ''127.0.0.1'', ua = Some ''pytest''\<rparr>],
           calls := [InsertOneExam, FindOneExamById 0x65f0a1b2c3d4e5f601234567,
                     InsertOneExamlog, FindOneExamById 0x65f0a1b2c3d4e5f601234567,
                     FindExamlogSorted 0x65f0a1b2c3d4e5f601234567]\<rparr>))"
  by (simp add: log_event_def export_log_def oid_def sample_exam_id find_one_exam_by_id_def
      find_examlog_sorted_def insert_one_examlog_def called_def sample_store_def late_body_def
      sample_request_def client_time_def toy_fromtimestamp_iso_def)

end
